theory Spec2Isabelle
  imports Main
begin

section \<open>JavaScript values\<close>

text \<open>
  The values that flow through the handlers. Numbers are restricted to the integers
  plus \<open>NaN\<close> (the only further falsy number). \<open>Fn r\<close> is a function value of
  which only the result \<open>r\<close> of calling it is modelled. \<open>ResponseObj i\<close> is the
  Express response object with identity \<open>i\<close>: the source compares a result with
  the response by reference (\<open>result !== res\<close>).
\<close>

datatype jsval =
    Undefined
  | Null
  | Bool bool
  | Num int
  | NaN
  | Str string
  | Arr "jsval list"
  | Obj "(string \<times> jsval) list"
  | Fn jsval
  | ApiResInst int jsval
  | ResponseObj nat

text \<open>JavaScript truthiness, as used by \<open>if (x)\<close>, \<open>!x\<close> and \<open>x && y\<close>.\<close>

fun truthy :: "jsval \<Rightarrow> bool" where
  "truthy Undefined = False"
| "truthy Null = False"
| "truthy (Bool b) = b"
| "truthy (Num n) = (n \<noteq> 0)"
| "truthy NaN = False"
| "truthy (Str s) = (s \<noteq> [])"
| "truthy (Arr _) = True"
| "truthy (Obj _) = True"
| "truthy (Fn _) = True"
| "truthy (ApiResInst _ _) = True"
| "truthy (ResponseObj _) = True"

text \<open>\<open>typeof v === 'string'\<close> and \<open>typeof v === 'function'\<close>.\<close>

fun typeof_string :: "jsval \<Rightarrow> bool" where
  "typeof_string (Str _) = True"
| "typeof_string _ = False"


text \<open>
  Property read \<open>v.k\<close> on a value that is not null or undefined. Of an \<open>ApiRes\<close>
  instance only \<open>status\<close> is modelled, and of the primitives, arrays, functions and
  the response object no property is.
\<close>

fun get_prop :: "jsval \<Rightarrow> string \<Rightarrow> jsval" where
  "get_prop (Obj fs) k = (case map_of fs k of Some v \<Rightarrow> v | None \<Rightarrow> Undefined)"
| "get_prop (ApiResInst s j) k = (if k = ''status'' then Num s else Undefined)"
| "get_prop _ k = Undefined"

section \<open>Status table (enums)\<close>

text \<open>
  The entries \<open>'<code>_NAME': '<NAME>'\<close> of the frozen object \<open>HttpStatus\<close>. The
  other keys of that object (\<open>CONTINUE: 100\<close>, ...) never match a key of the form
  \<open>`${status}_NAME`\<close>, which starts with a digit.
\<close>

definition HttpStatus_NAMES :: "(int \<times> string) list" where
  "HttpStatus_NAMES = [
     (100, ''CONTINUE''), (101, ''SWITCHING_PROTOCOLS''),
     (102, ''PROCESSING''), (103, ''EARLY_HINTS''),
     (200, ''OK''), (201, ''CREATED''),
     (202, ''ACCEPTED''), (203, ''NON_AUTHORITATIVE_INFORMATION''),
     (204, ''NO_CONTENT''), (205, ''RESET_CONTENT''),
     (206, ''PARTIAL_CONTENT''), (300, ''AMBIGUOUS''),
     (301, ''MOVED_PERMANENTLY''), (302, ''FOUND''),
     (303, ''SEE_OTHER''), (304, ''NOT_MODIFIED''),
     (307, ''TEMPORARY_REDIRECT''), (308, ''PERMANENT_REDIRECT''),
     (400, ''BAD_REQUEST''), (401, ''UNAUTHORIZED''),
     (402, ''PAYMENT_REQUIRED''), (403, ''FORBIDDEN''),
     (404, ''NOT_FOUND''), (405, ''METHOD_NOT_ALLOWED''),
     (406, ''NOT_ACCEPTABLE''), (407, ''PROXY_AUTHENTICATION_REQUIRED''),
     (408, ''REQUEST_TIMEOUT''), (409, ''CONFLICT''),
     (410, ''GONE''), (411, ''LENGTH_REQUIRED''),
     (412, ''PRECONDITION_FAILED''), (413, ''PAYLOAD_TOO_LARGE''),
     (414, ''URI_TOO_LONG''), (415, ''UNSUPPORTED_MEDIA_TYPE''),
     (416, ''REQUESTED_RANGE_NOT_SATISFIABLE''), (417, ''EXPECTATION_FAILED''),
     (418, ''I_AM_A_TEAPOT''), (421, ''MISDIRECTED''),
     (422, ''UNPROCESSABLE_ENTITY''), (424, ''FAILED_DEPENDENCY''),
     (428, ''PRECONDITION_REQUIRED''), (429, ''TOO_MANY_REQUESTS''),
     (500, ''INTERNAL_SERVER_ERROR''), (501, ''NOT_IMPLEMENTED''),
     (502, ''BAD_GATEWAY''), (503, ''SERVICE_UNAVAILABLE''),
     (504, ''GATEWAY_TIMEOUT''), (505, ''HTTP_VERSION_NOT_SUPPORTED''),
     (506, ''VARIANT_ALSO_NEGOTIATES''), (507, ''INSUFFICIENT_STORAGE''),
     (508, ''LOOP_DETECTED''), (509, ''BANDWIDTH_LIMIT_EXCEEDED''),
     (510, ''NOT_EXTENDED''), (511, ''NETWORK_AUTHENTICATION_REQUIRED'')]"

text \<open>\<open>HttpStatus[`${status}_NAME`]\<close>: \<open>None\<close> is JavaScript's \<open>undefined\<close>.\<close>

definition HttpStatus_NAME :: "int \<Rightarrow> string option" where
  "HttpStatus_NAME status = map_of HttpStatus_NAMES status"

definition INTERNAL_SERVER_ERROR :: int where
  "INTERNAL_SERVER_ERROR = 500"

section \<open>String operations used by getErrorName\<close>

text \<open>
  Strings are ASCII here, as every name of the table is. \<open>toLowerCase\<close> and
  \<open>toUpperCase\<close> act on the letters A-Z and a-z and leave every other ASCII
  character alone.
\<close>

definition upper_letters :: string where
  "upper_letters = ''ABCDEFGHIJKLMNOPQRSTUVWXYZ''"

definition lower_letters :: string where
  "lower_letters = ''abcdefghijklmnopqrstuvwxyz''"

definition digits :: string where
  "digits = ''0123456789''"

definition toLowerCase_chr :: "char \<Rightarrow> char" where
  "toLowerCase_chr c =
     (case map_of (zip upper_letters lower_letters) c of Some d \<Rightarrow> d | None \<Rightarrow> c)"

definition toUpperCase_chr :: "char \<Rightarrow> char" where
  "toUpperCase_chr c =
     (case map_of (zip lower_letters upper_letters) c of Some d \<Rightarrow> d | None \<Rightarrow> c)"

definition toLowerCase :: "string \<Rightarrow> string" where
  "toLowerCase s = map toLowerCase_chr s"

text \<open>The regular-expression classes \<open>\w\<close> and \<open>\s\<close> on ASCII.\<close>

definition is_word_chr :: "char \<Rightarrow> bool" where
  "is_word_chr c = (c \<in> set (upper_letters @ lower_letters @ digits @ ''_''))"

definition is_space_chr :: "char \<Rightarrow> bool" where
  "is_space_chr c =
     (c \<in> set [CHR '' '', CHR 0x09, CHR 0x0A, CHR 0x0B, CHR 0x0C, CHR 0x0D])"

text \<open>\<open>.replace(/_/g, ' ')\<close>\<close>

definition replace_underscores :: "string \<Rightarrow> string" where
  "replace_underscores s = map (\<lambda>c. if c = CHR ''_'' then CHR '' '' else c) s"

text \<open>
  \<open>.replace(/\b\w/g, char => char.toUpperCase())\<close>: a word character matches
  \<open>\b\w\<close> exactly when the character before it is not a word character, or when it
  is the first character. The flag says whether the previous character of the
  subject string was a word character.
\<close>

fun upcase_word_starts :: "bool \<Rightarrow> string \<Rightarrow> string" where
  "upcase_word_starts prev [] = []"
| "upcase_word_starts prev (c # cs) =
     (if is_word_chr c \<and> \<not> prev then toUpperCase_chr c else c)
       # upcase_word_starts (is_word_chr c) cs"

text \<open>\<open>.replace(/\s+/g, '')\<close>\<close>

definition remove_spaces :: "string \<Rightarrow> string" where
  "remove_spaces s = filter (\<lambda>c. \<not> is_space_chr c) s"

text \<open>\<open>name.endsWith(t)\<close>\<close>

definition endsWith :: "string \<Rightarrow> string \<Rightarrow> bool" where
  "endsWith s t = (length t \<le> length s \<and> drop (length s - length t) s = t)"

section \<open>Errors (getErrorName, HttpError)\<close>

definition getErrorName :: "int \<Rightarrow> string" where
  "getErrorName status =
     (if status < 400 \<or> status > 511 then ''HttpError''
      else case HttpStatus_NAME status of
             None \<Rightarrow> ''HttpError''
           | Some statusKey \<Rightarrow>
               if statusKey = [] then ''HttpError''
               else
                 let name = remove_spaces (upcase_word_starts False
                              (replace_underscores (toLowerCase statusKey)))
                 in if endsWith name ''Error'' then name else name @ ''Error'')"

text \<open>
  The class \<open>HttpError\<close>. \<open>msg\<close>, \<open>status\<close> and \<open>detail\<close> are the constructor's
  parameter properties; \<open>name\<close> and \<open>message\<close> are the properties inherited from
  \<open>Error\<close> that the constructor assigns. The captured stack is platform text and is
  left out. The parameters are typed \<open>BodyMessage\<close> and \<open>object\<close> in the source, but
  the types are erased at run time and the repository itself passes a string or
  \<open>null\<close> as \<open>detail\<close>, so both are arbitrary values here.
\<close>

record HttpError =
  msg :: jsval
  status :: int
  detail :: jsval
  name :: string
  message :: jsval

text \<open>
  \<open>new HttpError(msg, status, detail)\<close>; \<open>None\<close> for the status is the omitted
  argument, which takes the default \<open>HttpStatus.INTERNAL_SERVER_ERROR\<close>.
\<close>

definition HttpError_new :: "jsval \<Rightarrow> int option \<Rightarrow> jsval \<Rightarrow> HttpError" where
  "HttpError_new m st d =
     (let s = (case st of None \<Rightarrow> INTERNAL_SERVER_ERROR | Some c \<Rightarrow> c);
          n = getErrorName s
      in \<lparr>msg = m, status = s, detail = d, name = n,
          message = (if typeof_string m then m else Str n)\<rparr>)"

definition toJson :: "HttpError \<Rightarrow> jsval" where
  "toJson e =
     Obj ([(''status'', Num (status e)), (''error'', Str (name e)), (''message'', msg e)]
          @ (if truthy (detail e) then [(''detail'', detail e)] else []))"

text \<open>The specializations: each fixes the status and forwards message and detail.\<close>

definition BadRequestError_new :: "jsval \<Rightarrow> jsval \<Rightarrow> HttpError" where
  "BadRequestError_new m d = HttpError_new m (Some 400) d"

definition ConflictError_new :: "jsval \<Rightarrow> jsval \<Rightarrow> HttpError" where
  "ConflictError_new m d = HttpError_new m (Some 409) d"

definition ForbiddenError_new :: "jsval \<Rightarrow> jsval \<Rightarrow> HttpError" where
  "ForbiddenError_new m d = HttpError_new m (Some 403) d"

definition NotFoundError_new :: "jsval \<Rightarrow> jsval \<Rightarrow> HttpError" where
  "NotFoundError_new m d = HttpError_new m (Some 404) d"

definition UnAuthorizedError_new :: "jsval \<Rightarrow> jsval \<Rightarrow> HttpError" where
  "UnAuthorizedError_new m d = HttpError_new m (Some 401) d"

definition NotImplementedError_new :: "jsval \<Rightarrow> jsval \<Rightarrow> HttpError" where
  "NotImplementedError_new m d = HttpError_new m (Some 501) d"

definition PaymentRequiredError_new :: "jsval \<Rightarrow> jsval \<Rightarrow> HttpError" where
  "PaymentRequiredError_new m d = HttpError_new m (Some 402) d"

definition InternalServerError_new :: "jsval \<Rightarrow> jsval \<Rightarrow> HttpError" where
  "InternalServerError_new m d = HttpError_new m (Some INTERNAL_SERVER_ERROR) d"

text \<open>
  A thrown value or rejection reason: an instance of \<open>HttpError\<close> (or of one of its
  subclasses), or any other value.
\<close>

datatype err = HttpErr HttpError | Thrown jsval

fun isHttpError :: "err \<Rightarrow> bool" where
  "isHttpError (HttpErr _) = True"
| "isHttpError (Thrown _) = False"

text \<open>\<open>new Error(m)\<close> and the \<open>TypeError\<close> of a property read on null or undefined.\<close>

definition Error_new :: "string \<Rightarrow> jsval" where
  "Error_new m = Obj [(''name'', Str ''Error''), (''message'', Str m)]"

definition TypeError :: jsval where
  "TypeError = Obj [(''name'', Str ''TypeError'')]"

section \<open>Handler wrapper (handleResult, asyncHandler)\<close>

text \<open>
  What an invocation does to the outside world is a list of actions, in order: the
  calls made on the response object, the calls of \<open>next\<close> (with an error, or with no
  argument: \<open>Proceed\<close>), and whatever a logging callback does. Only calls that
  complete are in the list.
\<close>

datatype action =
    Status int
  | Json jsval
  | Send jsval
  | Next err
  | Proceed
  | Logged err

text \<open>
  The methods of the response object belong to Express and may throw, as
  \<open>res.send\<close> does once the headers are sent. Express is a parameter: given the
  actions so far and the call attempted, it says whether the call throws, and what.
  A call that throws leaves no action.
\<close>

type_synonym express = "action list \<Rightarrow> action \<Rightarrow> err option"

type_synonym request = jsval
type_synonym response = nat

text \<open>
  A promise is given by how it settles; \<open>Pending\<close> is a promise that never settles.
  A handler call throws, returns a value that is not a promise, or returns a promise.
  A handler is called with \<open>(req, res, next)\<close> and is free to call the methods of
  \<open>res\<close> and \<open>next\<close> itself: an invocation of it gives the actions it performed
  itself, up to its completion or the settling of its promise, and its completion.
\<close>

datatype promise = Pending | Fulfilled jsval | Rejected err

datatype completion = Throws err | Returns jsval | ReturnsPromise promise

type_synonym ReqHandler = "request \<Rightarrow> response \<Rightarrow> action list \<times> completion"

text \<open>
  Modelled from the spec: the class \<open>ApiRes\<close>, which is not among the sources. An
  instance \<open>ApiResInst s j\<close> carries its \<open>status\<close> \<open>s\<close> and the object \<open>j\<close> that its
  \<open>toJson()\<close> returns; \<open>instanceof_ApiRes\<close> is the source's test
  \<open>result instanceof ApiRes\<close>.
\<close>

fun instanceof_ApiRes :: "jsval \<Rightarrow> bool" where
  "instanceof_ApiRes (ApiResInst _ _) = True"
| "instanceof_ApiRes _ = False"

text \<open>
  \<open>handleResult\<close> gives the calls that the source makes on the response for a
  result, in the order in which it makes them.
\<close>

definition handleResult :: "jsval \<Rightarrow> response \<Rightarrow> action list" where
  "handleResult result res =
     (case result of
        ApiResInst st body \<Rightarrow> [Status st, Json body]
      | _ \<Rightarrow> if truthy result \<and> result \<noteq> ResponseObj res then [Send result] else [])"

text \<open>
  Making calls on the response in order, after the actions \<open>tr\<close>: the actions after
  them and, when a call throws, the thrown value; the calls after it are not made.
\<close>

fun perform :: "express \<Rightarrow> action list \<Rightarrow> action list \<Rightarrow> action list \<times> err option" where
  "perform ex tr [] = (tr, None)"
| "perform ex tr (a # as) =
     (case ex tr a of
        Some e \<Rightarrow> (tr, Some e)
      | None \<Rightarrow> perform ex (tr @ [a]) as)"

text \<open>
  \<open>catch (error) { next(error) }\<close> and \<open>.catch(next)\<close> around \<open>handleResult\<close>: what
  it throws is passed to \<open>next\<close>.
\<close>

definition forward_thrown :: "action list \<times> err option \<Rightarrow> action list" where
  "forward_thrown r = (case r of (tr, None) \<Rightarrow> tr | (tr, Some e) \<Rightarrow> tr @ [Next e])"

text \<open>
  The wrapped handler. Its actions are those of the whole invocation: the handler's
  own, then the wrapper's, the continuations attached to a returned promise included.
\<close>

definition asyncHandler ::
    "ReqHandler \<Rightarrow> express \<Rightarrow> request \<Rightarrow> response \<Rightarrow> action list" where
  "asyncHandler func ex req res =
     (case func req res of
        (own, Throws error) \<Rightarrow> own @ [Next error]
      | (own, ReturnsPromise result) \<Rightarrow>
          (case result of
             Fulfilled v \<Rightarrow> forward_thrown (perform ex own (handleResult v res))
           | Rejected reason \<Rightarrow> own @ [Next reason]
           | Pending \<Rightarrow> own)
      | (own, Returns result) \<Rightarrow> forward_thrown (perform ex own (handleResult result res)))"

section \<open>Error middleware (globalErrorHandler)\<close>

text \<open>
  The options object; \<open>None\<close> is an absent (undefined) property. The \<open>write\<close>
  callback (\<open>write_fn\<close> here) is given by the actions it performs. In the middleware
  the calls on the response are taken to complete.
\<close>

record Options =
  isDev :: "bool option"
  write_fn :: "(err \<Rightarrow> action list) option"

text \<open>
  The result is the list of actions and, when the middleware itself throws, the
  thrown value: with \<open>isDev\<close> the source reads \<open>err.message\<close>, which throws a
  \<open>TypeError\<close> when \<open>err\<close> is null or undefined.
\<close>

definition globalErrorHandler :: "Options option \<Rightarrow> err \<Rightarrow> action list \<times> err option" where
  "globalErrorHandler options e =
     (let opts = (case options of None \<Rightarrow> \<lparr>isDev = None, write_fn = None\<rparr> | Some opt \<Rightarrow> opt);
          dev = (case isDev opts of None \<Rightarrow> True | Some b \<Rightarrow> b)
      in case e of
           HttpErr h \<Rightarrow> ([Status (status h), Json (toJson h)], None)
         | Thrown v \<Rightarrow>
             (let written = (case write_fn opts of None \<Rightarrow> [] | Some w \<Rightarrow> w e)
              in if dev \<and> (v = Null \<or> v = Undefined)
                 then (written, Some (Thrown TypeError))
                 else
                   (let error = InternalServerError_new
                                  (if dev then get_prop v ''message''
                                   else Str ''Something went wrong'')
                                  (if dev then get_prop v ''stack'' else Null)
                    in (written @ [Status (status error), Json (toJson error)], None))))"

section \<open>Method-wrapping proxy (proxyWrapper)\<close>

text \<open>
  An object has data properties and methods: what \<open>Reflect.get\<close> finds under a
  string key, on the object itself or along its prototype chain, inherited members
  included. A method takes the data properties of its \<open>this\<close> and is then a handler.
\<close>

type_synonym meth = "(string \<times> jsval) list \<Rightarrow> ReqHandler"

record target =
  props :: "(string \<times> jsval) list"
  methods :: "(string \<times> meth) list"

datatype propval = Data jsval | Method meth

text \<open>\<open>Reflect.get(target, prop, receiver)\<close>; a missing property reads as undefined.\<close>

definition Reflect_get :: "target \<Rightarrow> string \<Rightarrow> propval" where
  "Reflect_get t p =
     (case map_of (props t) p of
        Some v \<Rightarrow> Data v
      | None \<Rightarrow> (case map_of (methods t) p of Some m \<Rightarrow> Method m | None \<Rightarrow> Data Undefined))"

text \<open>\<open>value.bind(target)\<close>: the method with its \<open>this\<close> fixed to the target.\<close>

definition bind :: "meth \<Rightarrow> target \<Rightarrow> ReqHandler" where
  "bind m t = m (props t)"

datatype proxy = Proxy target

fun target_of :: "proxy \<Rightarrow> target" where
  "target_of (Proxy t) = t"

text \<open>
  What reading a property of the proxy yields: the \<open>get\<close> trap. The values with
  \<open>typeof value === 'function'\<close> are the methods and the function values \<open>Fn r\<close>;
  binding \<open>Fn r\<close>, whose result does not depend on \<open>this\<close>, gives a handler that
  returns \<open>r\<close>.
\<close>

datatype proxied =
    Plain jsval
  | Handler "express \<Rightarrow> request \<Rightarrow> response \<Rightarrow> action list"

definition proxy_get :: "proxy \<Rightarrow> string \<Rightarrow> proxied" where
  "proxy_get px p =
     (let t = target_of px
      in case Reflect_get t p of
           Method m \<Rightarrow> Handler (asyncHandler (bind m t))
         | Data v \<Rightarrow>
             (case v of
                Fn r \<Rightarrow> Handler (asyncHandler (\<lambda>req res. ([], Returns r)))
              | _ \<Rightarrow> Plain v))"

text \<open>
  The \<open>set\<close> trap: the outcome of the assignment and the object behind the proxy
  after it.
\<close>

definition proxy_set :: "proxy \<Rightarrow> string \<Rightarrow> jsval \<Rightarrow> (err + unit) \<times> target" where
  "proxy_set px p v =
     (Inl (Thrown (Error_new ''Overriding methods and properties is not allowed.'')),
      target_of px)"

text \<open>
  The first argument: a constructor (any value with
  \<open>typeof clsOrInstance === 'function'\<close>), which may throw, or an object that is not
  a function.
\<close>

datatype clsOrInstance = Constructor "jsval list \<Rightarrow> err + target" | Instance target

definition proxyWrapper :: "clsOrInstance \<Rightarrow> jsval list \<Rightarrow> err + proxy" where
  "proxyWrapper c args =
     (case c of
        Constructor cls \<Rightarrow> (case cls args of Inl e \<Rightarrow> Inl e | Inr inst \<Rightarrow> Inr (Proxy inst))
      | Instance inst \<Rightarrow> Inr (Proxy inst))"

section \<open>Notions of the specification\<close>

text \<open>
  PascalCase of a symbolic name, following the specification's words: the name is
  cut at the underscores, each piece gets a capital first letter and small letters
  after it, and the pieces are joined.
\<close>

fun split_underscore :: "string \<Rightarrow> string list" where
  "split_underscore [] = [[]]"
| "split_underscore (c # cs) =
     (if c = CHR ''_'' then [] # split_underscore cs
      else (case split_underscore cs of
              [] \<Rightarrow> [[c]]
            | w # ws \<Rightarrow> (c # w) # ws))"

fun capitalize :: "string \<Rightarrow> string" where
  "capitalize [] = []"
| "capitalize (c # cs) = toUpperCase_chr c # map toLowerCase_chr cs"

definition pascalCase_spec :: "string \<Rightarrow> string" where
  "pascalCase_spec s = concat (map capitalize (split_underscore s))"

definition errorSuffix_spec :: "string \<Rightarrow> string" where
  "errorSuffix_spec n = (if endsWith n ''Error'' then n else n @ ''Error'')"

text \<open>
  The "ApiRes capability" in the specification's words: the value exposes an
  integer \<open>status\<close> and a \<open>toJson()\<close> method.
\<close>

definition apiResCapable_spec :: "jsval \<Rightarrow> bool" where
  "apiResCapable_spec v =
     (case v of
        ApiResInst _ _ \<Rightarrow> True
      | Obj fs \<Rightarrow>
          (case (map_of fs ''status'', map_of fs ''toJson'') of
             (Some (Num _), Some (Fn _)) \<Rightarrow> True
           | _ \<Rightarrow> False)
      | _ \<Rightarrow> False)"







text \<open>Whether a JSON body has a key.\<close>

fun has_key :: "jsval \<Rightarrow> string \<Rightarrow> bool" where
  "has_key (Obj fs) k = (k \<in> set (map fst fs))"
| "has_key _ k = False"

text \<open>The values of TypeScript's type \<open>object\<close>: every value that is not a primitive.\<close>

fun is_object :: "jsval \<Rightarrow> bool" where
  "is_object (Arr _) = True"
| "is_object (Obj _) = True"
| "is_object (Fn _) = True"
| "is_object (ApiResInst _ _) = True"
| "is_object (ResponseObj _) = True"
| "is_object _ = False"

section \<open>Examples\<close>

text \<open>
  Two behaviours of Express: a response whose methods never throw, and the response
  of Node, on which a write after a completed write throws
  \<open>ERR_HTTP_HEADERS_SENT\<close>.
\<close>

definition never_throws :: express where
  "never_throws tr a = None"









definition boom :: jsval where
  "boom = Obj [(''message'', Str ''boom''), (''stack'', Str ''Error: boom at app.js:1'')]"

text \<open>
  A constructor that stores its first argument as \<open>message\<close> and gives its instance
  a function \<open>method\<close> that returns \<open>this.message\<close>. The instance has no prototype,
  so these two are all its members:
  \<open>function Controller(x) { const o = Object.create(null); o.message = x;
  o.method = function () { return this.message }; return o }\<close>.
  \<open>Controller_x\<close> is the instance it constructs from \<open>'x'\<close>.
\<close>

definition Controller_method :: meth where
  "Controller_method this req res =
     ([], Returns (case map_of this ''message'' of None \<Rightarrow> Undefined | Some x \<Rightarrow> x))"

definition Controller_x :: target where
  "Controller_x = \<lparr>props = [(''message'', Str ''x'')], methods = [(''method'', Controller_method)]\<rparr>"

definition Controller :: "jsval list \<Rightarrow> err + target" where
  "Controller args =
     Inr \<lparr>props = [(''message'', case args of [] \<Rightarrow> Undefined | a # _ \<Rightarrow> a)],
          methods = [(''method'', Controller_method)]\<rparr>"

section \<open>Status names\<close>

subsection \<open>The regular-expression pipeline computes PascalCase\<close>

lemma underscore_facts:
  "toLowerCase_chr (CHR ''_'') = CHR ''_''"
  "\<not> is_word_chr (CHR '' '')"
  "is_space_chr (CHR '' '')"
  by (simp_all add: toLowerCase_chr_def upper_letters_def lower_letters_def digits_def
        is_word_chr_def is_space_chr_def)

lemma alnum_chr_table:
  "list_all (\<lambda>c. toLowerCase_chr c \<noteq> CHR ''_'' \<and> is_word_chr (toLowerCase_chr c)
       \<and> \<not> is_space_chr (toLowerCase_chr c)
       \<and> \<not> is_space_chr (toUpperCase_chr (toLowerCase_chr c))
       \<and> toUpperCase_chr (toLowerCase_chr c) = toUpperCase_chr c)
     (upper_letters @ lower_letters @ digits)"
  by code_simp

lemma word_chr_cases:
  assumes "is_word_chr c" "c \<noteq> CHR ''_''"
  shows "toLowerCase_chr c \<noteq> CHR ''_''"
    and "is_word_chr (toLowerCase_chr c)"
    and "\<not> is_space_chr (toLowerCase_chr c)"
    and "\<not> is_space_chr (toUpperCase_chr (toLowerCase_chr c))"
    and "toUpperCase_chr (toLowerCase_chr c) = toUpperCase_chr c"
proof -
  from assms have mem: "c \<in> set (upper_letters @ lower_letters @ digits)"
    by (simp add: is_word_chr_def)
  note all = alnum_chr_table [unfolded list_all_iff, rule_format, OF mem]
  from all show "toLowerCase_chr c \<noteq> CHR ''_''" by blast
  from all show "is_word_chr (toLowerCase_chr c)" by blast
  from all show "\<not> is_space_chr (toLowerCase_chr c)" by blast
  from all show "\<not> is_space_chr (toUpperCase_chr (toLowerCase_chr c))" by blast
  from all show "toUpperCase_chr (toLowerCase_chr c) = toUpperCase_chr c" by blast
qed

lemma split_underscore_nonempty: "split_underscore s \<noteq> []"
  by (induction s) (auto split: list.splits)

text \<open>
  The flag of \<open>upcase_word_starts\<close> is generalised: inside a word the first piece is
  only lowered.
\<close>

lemma pipeline_pieces:
  "list_all is_word_chr s \<Longrightarrow>
   remove_spaces (upcase_word_starts b (replace_underscores (toLowerCase s))) =
     (case split_underscore s of
        [] \<Rightarrow> []
      | w # ws \<Rightarrow> (if b then map toLowerCase_chr w else capitalize w) @ concat (map capitalize ws))"
proof (induction s arbitrary: b)
  case Nil
  then show ?case
    by (simp add: remove_spaces_def replace_underscores_def toLowerCase_def)
next
  case (Cons c cs)
  then have wc: "is_word_chr c" and wcs: "list_all is_word_chr cs" by simp_all
  obtain w ws where sp: "split_underscore cs = w # ws"
    using split_underscore_nonempty [of cs] by (cases "split_underscore cs") auto
  show ?case
  proof (cases "c = CHR ''_''")
    case True
    then show ?thesis
      using Cons.IH [OF wcs, of False] sp
      by (simp add: remove_spaces_def replace_underscores_def toLowerCase_def underscore_facts)
  next
    case False
    note f = word_chr_cases [OF wc False]
    show ?thesis
      using Cons.IH [OF wcs, of True] sp False f
      by (simp add: remove_spaces_def replace_underscores_def toLowerCase_def)
  qed
qed

lemma pipeline_pascalCase:
  assumes "list_all is_word_chr s"
  shows "remove_spaces (upcase_word_starts False (replace_underscores (toLowerCase s)))
           = pascalCase_spec s"
proof -
  obtain w ws where sp: "split_underscore s = w # ws"
    using split_underscore_nonempty [of s] by (cases "split_underscore s") auto
  show ?thesis
    using pipeline_pieces [OF assms, of False] sp by (simp add: pascalCase_spec_def)
qed

lemma table_word_chrs:
  "list_all (\<lambda>(c, k). k \<noteq> [] \<and> list_all is_word_chr k) HttpStatus_NAMES"
  by code_simp

lemma registered_name:
  assumes "HttpStatus_NAME c = Some k"
  shows "k \<noteq> []" and "list_all is_word_chr k"
proof -
  from assms have "(c, k) \<in> set HttpStatus_NAMES"
    by (auto simp: HttpStatus_NAME_def dest: map_of_SomeD)
  with table_word_chrs have "k \<noteq> [] \<and> list_all is_word_chr k"
    by (auto simp: list_all_iff)
  then show "k \<noteq> []" and "list_all is_word_chr k" by simp_all
qed

lemma getErrorName_500: "getErrorName 500 = ''InternalServerError''"
  by code_simp

lemma getErrorName_examples:
  "getErrorName 400 = ''BadRequestError''"
  "getErrorName 404 = ''NotFoundError''"
  "getErrorName 418 = ''IAmATeapotError''"
  "getErrorName 511 = ''NetworkAuthenticationRequiredError''"
  "getErrorName 420 = ''HttpError''"
  "getErrorName 399 = ''HttpError''"
  "getErrorName 512 = ''HttpError''"
  "getErrorName (- 1) = ''HttpError''"
  by code_simp+

text \<open>
  C4, as amended. \<open>getErrorName\<close> is a function of the status alone, defined on
  every integer. For a code within 400..511 that has a name in the status table the
  result is that name in PascalCase, with \<open>Error\<close> appended unless the name already
  ends with it. For every other code, whether it is outside 400..511 (registered
  or not) or has no name in the table, the result is exactly \<open>HttpError\<close>.
\<close>

theorem getErrorName_total:
  "getErrorName c =
     (if 400 \<le> c \<and> c \<le> 511
      then (case HttpStatus_NAME c of
              Some k \<Rightarrow> errorSuffix_spec (pascalCase_spec k)
            | None \<Rightarrow> ''HttpError'')
      else ''HttpError'')"
proof (cases "HttpStatus_NAME c")
  case None
  then show ?thesis by (simp add: getErrorName_def)
next
  case (Some k)
  note reg = registered_name [OF Some]
  show ?thesis
    using Some reg(1) pipeline_pascalCase [OF reg(2)]
    by (auto simp: getErrorName_def errorSuffix_spec_def Let_def)
qed

theorem getErrorName_total_witness:
  "getErrorName 404 = ''NotFoundError'' \<and> getErrorName 200 = ''HttpError''"
proof -
  have k: "HttpStatus_NAME 404 = Some ''NOT_FOUND''" by code_simp
  have p: "errorSuffix_spec (pascalCase_spec ''NOT_FOUND'') = ''NotFoundError''" by code_simp
  show ?thesis
    using getErrorName_total [of 404] getErrorName_total [of 200] k p by simp
qed

text \<open>
  C4 as stated fails: 200 is registered in the table (as \<open>OK\<close>), yet its name is
  not the PascalCase name with the suffix, \<open>OkError\<close>, but \<open>HttpError\<close>.
\<close>

theorem getErrorName_registered_counterexample:
  "HttpStatus_NAME 200 = Some ''OK''
   \<and> errorSuffix_spec (pascalCase_spec ''OK'') = ''OkError''
   \<and> getErrorName 200 \<noteq> errorSuffix_spec (pascalCase_spec ''OK'')"
  by code_simp

section \<open>Outcome classification\<close>

text \<open>
  C1, as amended. For every value \<open>v\<close> returned or resolved by a wrapped handler:
  if \<open>v\<close> is an instance of the class \<open>ApiRes\<close>, the response is written with its
  status code and the object of its \<open>toJson()\<close> as the JSON body; else if \<open>v\<close> is
  truthy and is not the response object itself, \<open>v\<close> is sent as the body; else
  (\<open>v\<close> falsy, or the response object) nothing is written.
\<close>

theorem handleResult_classification:
  "handleResult (ApiResInst s j) res = [Status s, Json j]
   \<and> (\<not> instanceof_ApiRes v \<and> truthy v \<and> v \<noteq> ResponseObj res
        \<longrightarrow> handleResult v res = [Send v])
   \<and> (\<not> instanceof_ApiRes v \<and> (\<not> truthy v \<or> v = ResponseObj res)
        \<longrightarrow> handleResult v res = [])"
  by (cases v) (auto simp: handleResult_def)

theorem handleResult_classification_witness:
  "handleResult (ApiResInst 201 (Obj [(''id'', Num 1)])) 0 = [Status 201, Json (Obj [(''id'', Num 1)])]
   \<and> handleResult (Obj [(''message'', Str ''hi'')]) 0 = [Send (Obj [(''message'', Str ''hi'')])]
   \<and> handleResult Undefined 0 = []
   \<and> handleResult (ResponseObj 0) 0 = []"
  using handleResult_classification [of 201 "Obj [(''id'', Num 1)]" 0 "Obj [(''message'', Str ''hi'')]"]
    handleResult_classification [of 201 "Obj [(''id'', Num 1)]" 0 Undefined]
    handleResult_classification [of 201 "Obj [(''id'', Num 1)]" 0 "ResponseObj 0"]
  by simp

text \<open>
  C1 as stated fails for a value that has the capability without being an instance of
  the class: a plain object with an integer \<open>status\<close> and a \<open>toJson\<close> method is sent
  as it is, with no status set and without calling \<open>toJson\<close>.
\<close>

theorem handleResult_capability_counterexample:
  "apiResCapable_spec (Obj [(''status'', Num 201), (''toJson'', Fn (Obj [(''id'', Num 1)]))])
   \<and> handleResult (Obj [(''status'', Num 201), (''toJson'', Fn (Obj [(''id'', Num 1)]))]) 0
       = [Send (Obj [(''status'', Num 201), (''toJson'', Fn (Obj [(''id'', Num 1)]))])]
   \<and> handleResult (Obj [(''status'', Num 201), (''toJson'', Fn (Obj [(''id'', Num 1)]))]) 0
       \<noteq> [Status 201, Json (Obj [(''id'', Num 1)])]"
  by (simp add: apiResCapable_spec_def handleResult_def)

section \<open>The wrapped handler\<close>


lemma perform_never_throws: "perform never_throws tr cs = (tr @ cs, None)"
  by (induction cs arbitrary: tr) (simp_all add: never_throws_def)






text \<open>
  C3. A handler that returns \<open>v\<close> and a handler that returns a promise fulfilled with
  \<open>v\<close>, having made the same calls themselves, produce, once wrapped, the same
  actions: those of the outcome classification of \<open>v\<close>, with an exception thrown
  by a call on the response forwarded alike. When no call on the response throws and
  the handlers make no calls themselves, the actions are exactly the outcome
  classification of \<open>v\<close>.
\<close>

theorem asyncHandler_sync_async:
  "f req res = (own, Returns v) \<Longrightarrow> g req res = (own, ReturnsPromise (Fulfilled v))
   \<Longrightarrow> asyncHandler f ex req res = asyncHandler g ex req res
       \<and> asyncHandler f ex req res = forward_thrown (perform ex own (handleResult v res))
       \<and> asyncHandler f never_throws req res = own @ handleResult v res
       \<and> (own = [] \<longrightarrow> asyncHandler f never_throws req res = handleResult v res)"
  by (simp add: asyncHandler_def perform_never_throws forward_thrown_def)

theorem asyncHandler_sync_async_witness:
  "asyncHandler (\<lambda>req res. ([], Returns (ApiResInst 201 (Obj [(''id'', Num 1)])))) never_throws Null 0
     = asyncHandler (\<lambda>req res. ([], ReturnsPromise (Fulfilled (ApiResInst 201 (Obj [(''id'', Num 1)])))))
         never_throws Null 0
   \<and> asyncHandler (\<lambda>req res. ([], Returns (ApiResInst 201 (Obj [(''id'', Num 1)])))) never_throws Null 0
     = [Status 201, Json (Obj [(''id'', Num 1)])]"
proof -
  let ?v = "ApiResInst 201 (Obj [(''id'', Num 1)])"
  let ?f = "\<lambda>(req::request) (res::response). ([]::action list, Returns ?v)"
  let ?g = "\<lambda>(req::request) (res::response). ([]::action list, ReturnsPromise (Fulfilled ?v))"
  have h: "handleResult ?v 0 = [Status 201, Json (Obj [(''id'', Num 1)])]"
    by (simp add: handleResult_def)
  have "asyncHandler ?f never_throws Null 0 = asyncHandler ?g never_throws Null 0
        \<and> asyncHandler ?f never_throws Null 0
            = forward_thrown (perform never_throws [] (handleResult ?v 0))
        \<and> asyncHandler ?f never_throws Null 0 = [] @ handleResult ?v 0
        \<and> ([] = ([]::action list) \<longrightarrow> asyncHandler ?f never_throws Null 0 = handleResult ?v 0)"
    by (rule asyncHandler_sync_async [of ?f Null 0 "[]" ?v ?g never_throws]) simp_all
  with h show ?thesis by metis
qed

section \<open>HttpError\<close>

lemma HttpError_new_fields:
  "msg (HttpError_new m st d) = m"
  "status (HttpError_new m st d) = (case st of None \<Rightarrow> 500 | Some c \<Rightarrow> c)"
  "detail (HttpError_new m st d) = d"
  "name (HttpError_new m st d) = getErrorName (case st of None \<Rightarrow> 500 | Some c \<Rightarrow> c)"
  "message (HttpError_new m st d) =
     (if typeof_string m then m else Str (getErrorName (case st of None \<Rightarrow> 500 | Some c \<Rightarrow> c)))"
  by (cases st; simp add: HttpError_new_def INTERNAL_SERVER_ERROR_def Let_def)+

lemma toJson_fields:
  "get_prop (toJson e) ''status'' = Num (status e)"
  "get_prop (toJson e) ''error'' = Str (name e)"
  "get_prop (toJson e) ''message'' = msg e"
  "has_key (toJson e) ''detail'' = truthy (detail e)"
  "truthy (detail e) \<Longrightarrow> get_prop (toJson e) ''detail'' = detail e"
  by (auto simp: toJson_def)

lemma is_object_truthy: "is_object d \<Longrightarrow> truthy d"
  by (cases d) simp_all

text \<open>
  C5, as amended. For every message, status and detail, the body of
  \<open>HttpError(msg, s, d).toJson()\<close> has a \<open>status\<close> field equal to \<open>s\<close>, an \<open>error\<close>
  field equal to \<open>getErrorName s\<close> and the message as given; the \<open>detail\<close> key is
  present if and only if the detail argument is truthy, and then holds it. For a
  detail of the declared type (an object, or null or undefined) that is: if and only
  if it is neither null nor undefined.
\<close>

theorem toJson_round_trip:
  "(let j = toJson (HttpError_new m (Some s) d) in
      get_prop j ''status'' = Num s
      \<and> get_prop j ''error'' = Str (getErrorName s)
      \<and> get_prop j ''message'' = m
      \<and> (has_key j ''detail'' \<longleftrightarrow> truthy d)
      \<and> (truthy d \<longrightarrow> get_prop j ''detail'' = d)
      \<and> (is_object d \<or> d = Null \<or> d = Undefined
           \<longrightarrow> (has_key j ''detail'' \<longleftrightarrow> d \<noteq> Null \<and> d \<noteq> Undefined)))"
  using is_object_truthy [of d]
  by (auto simp: Let_def toJson_fields HttpError_new_fields)

theorem toJson_round_trip_witness:
  "has_key (toJson (HttpError_new (Str ''Validation error.'') (Some 400)
              (Obj [(''username'', Str ''Username is required'')]))) ''detail''
   \<and> get_prop (toJson (HttpError_new (Str ''Validation error.'') (Some 400)
              (Obj [(''username'', Str ''Username is required'')]))) ''detail''
        = Obj [(''username'', Str ''Username is required'')]
   \<and> \<not> has_key (toJson (HttpError_new (Str ''Validation error.'') (Some 400) Undefined)) ''detail''"
  using toJson_round_trip [of "Str ''Validation error.''" 400
      "Obj [(''username'', Str ''Username is required'')]"]
    toJson_round_trip [of "Str ''Validation error.''" 400 Undefined]
  by (simp add: Let_def)

text \<open>
  C5 as stated fails for a detail that is not null but falsy: the empty string, as
  an empty stack text passed on by the error middleware, leaves no \<open>detail\<close> key.
\<close>

theorem toJson_detail_counterexample:
  "Str [] \<noteq> Null \<and> Str [] \<noteq> Undefined
   \<and> \<not> has_key (toJson (HttpError_new (Str ''failed'') (Some 500) (Str []))) ''detail''"
  by (simp add: toJson_fields HttpError_new_fields)

text \<open>
  C6, as amended. If the message given to the constructor is a string, the display
  message (the \<open>message\<close> property) is that string. If it is anything else, a list
  of strings or no message at all, the display message is the derived name; the list
  itself is kept as \<open>msg\<close> and is what \<open>toJson\<close> emits as the \<open>message\<close> field.
\<close>

theorem HttpError_display_message:
  "message (HttpError_new (Str t) st d) = Str t
   \<and> (\<not> typeof_string m
        \<longrightarrow> message (HttpError_new m st d) = Str (name (HttpError_new m st d)))
   \<and> name (HttpError_new m st d) = getErrorName (status (HttpError_new m st d))
   \<and> msg (HttpError_new m st d) = m
   \<and> get_prop (toJson (HttpError_new m st d)) ''message'' = m"
  by (simp add: toJson_fields HttpError_new_fields)

theorem HttpError_display_message_witness:
  "message (HttpError_new (Arr [Str ''name is required'', Str ''email is invalid'']) (Some 400) Undefined)
     = Str ''BadRequestError''
   \<and> get_prop (toJson (HttpError_new (Arr [Str ''name is required'', Str ''email is invalid''])
        (Some 400) Undefined)) ''message''
     = Arr [Str ''name is required'', Str ''email is invalid'']
   \<and> message (HttpError_new Undefined None Undefined) = Str ''InternalServerError''"
proof -
  have n: "getErrorName 400 = ''BadRequestError''" "getErrorName 500 = ''InternalServerError''"
    by code_simp+
  show ?thesis
    using HttpError_display_message [of "[]" "Some 400" Undefined
        "Arr [Str ''name is required'', Str ''email is invalid'']"]
      HttpError_display_message [of "[]" None Undefined Undefined] n
    by (simp add: HttpError_new_fields)
qed

text \<open>
  C6 as stated fails for a list: the display message of an error built from a list
  of strings is not the list.
\<close>

theorem HttpError_list_message_counterexample:
  "message (HttpError_new (Arr [Str ''name is required'', Str ''email is invalid'']) (Some 400) Undefined)
     \<noteq> Arr [Str ''name is required'', Str ''email is invalid'']"
  by (simp add: HttpError_new_fields)

section \<open>The error middleware\<close>

lemma InternalServerError_toJson:
  "toJson (InternalServerError_new m d) =
     Obj ([(''status'', Num 500), (''error'', Str ''InternalServerError''), (''message'', m)]
          @ (if truthy d then [(''detail'', d)] else []))"
  "status (InternalServerError_new m d) = 500"
  by (simp_all add: toJson_def InternalServerError_new_def HttpError_new_def
        INTERNAL_SERVER_ERROR_def getErrorName_500 Let_def)

lemma isHttpError_iff: "isHttpError e \<longleftrightarrow> (\<exists>h. e = HttpErr h)"
  by (cases e) simp_all

lemma globalErrorHandler_classified:
  "globalErrorHandler options (HttpErr h) = ([Status (status h), Json (toJson h)], None)"
  by (simp add: globalErrorHandler_def Let_def)

lemma globalErrorHandler_dev:
  assumes "v \<noteq> Null" "v \<noteq> Undefined"
  shows "globalErrorHandler (Some \<lparr>isDev = Some True, write_fn = w\<rparr>) (Thrown v) =
     ((case w of None \<Rightarrow> [] | Some f \<Rightarrow> f (Thrown v))
      @ [Status 500,
         Json (Obj ([(''status'', Num 500), (''error'', Str ''InternalServerError''),
                     (''message'', get_prop v ''message'')]
                    @ (if truthy (get_prop v ''stack'')
                       then [(''detail'', get_prop v ''stack'')] else [])))],
      None)"
  using assms by (simp add: globalErrorHandler_def InternalServerError_toJson Let_def)

lemma globalErrorHandler_production:
  "globalErrorHandler (Some \<lparr>isDev = Some False, write_fn = w\<rparr>) (Thrown v) =
     ((case w of None \<Rightarrow> [] | Some f \<Rightarrow> f (Thrown v))
      @ [Status 500,
         Json (Obj [(''status'', Num 500), (''error'', Str ''InternalServerError''),
                    (''message'', Str ''Something went wrong'')])],
      None)"
  by (simp add: globalErrorHandler_def InternalServerError_toJson Let_def)

lemma globalErrorHandler_defaults:
  "globalErrorHandler None e = globalErrorHandler (Some \<lparr>isDev = Some True, write_fn = None\<rparr>) e"
  "globalErrorHandler (Some \<lparr>isDev = None, write_fn = w\<rparr>) e
     = globalErrorHandler (Some \<lparr>isDev = Some True, write_fn = w\<rparr>) e"
  by (cases e; simp add: globalErrorHandler_def Let_def)+





text \<open>
  C10. Called without options, or with options that leave \<open>isDev\<close> unspecified,
  the middleware behaves as with \<open>isDev\<close> true: the response to an error that is
  not an \<open>HttpError\<close> carries the error's own message and its stack.
\<close>

theorem globalErrorHandler_default_isDev:
  "globalErrorHandler None e
     = globalErrorHandler (Some \<lparr>isDev = Some True, write_fn = None\<rparr>) e
   \<and> globalErrorHandler (Some \<lparr>isDev = None, write_fn = w\<rparr>) e
     = globalErrorHandler (Some \<lparr>isDev = Some True, write_fn = w\<rparr>) e
   \<and> (v \<noteq> Null \<and> v \<noteq> Undefined \<longrightarrow>
        globalErrorHandler None (Thrown v) =
          ([Status 500,
            Json (Obj ([(''status'', Num 500), (''error'', Str ''InternalServerError''),
                        (''message'', get_prop v ''message'')]
                       @ (if truthy (get_prop v ''stack'')
                          then [(''detail'', get_prop v ''stack'')] else [])))],
           None))"
  using globalErrorHandler_dev [of v None]
  by (simp add: globalErrorHandler_defaults)

theorem globalErrorHandler_default_isDev_witness:
  "globalErrorHandler None
      (Thrown (Obj [(''message'', Str ''boom''), (''stack'', Str ''Error: boom at app.js:1'')]))
    = ([Status 500,
        Json (Obj [(''status'', Num 500), (''error'', Str ''InternalServerError''),
                   (''message'', Str ''boom''), (''detail'', Str ''Error: boom at app.js:1'')])],
       None)"
  using globalErrorHandler_default_isDev [of undefined undefined
      "Obj [(''message'', Str ''boom''), (''stack'', Str ''Error: boom at app.js:1'')]"]
  by simp

section \<open>The proxy\<close>

text \<open>
  C8. On every view produced by \<open>proxyWrapper\<close>, assigning any value to any
  property throws the error \<open>Overriding methods and properties is not allowed.\<close>,
  and the object behind the view is as before: every property reads as it did.
\<close>

theorem proxy_set_rejected:
  "proxyWrapper c args = Inr px \<Longrightarrow>
     proxy_set px p v =
       (Inl (Thrown (Error_new ''Overriding methods and properties is not allowed.'')),
        target_of px)
     \<and> proxy_get (Proxy (snd (proxy_set px p v))) q = proxy_get px q"
  by (cases px) (simp add: proxy_set_def)

lemma proxyWrapper_Controller:
  "proxyWrapper (Constructor Controller) [Str ''x''] = Inr (Proxy Controller_x)"
  by (simp add: proxyWrapper_def Controller_def Controller_x_def)

theorem proxy_set_rejected_witness:
  "proxy_set (Proxy Controller_x) ''message'' (Str ''other'')
     = (Inl (Thrown (Error_new ''Overriding methods and properties is not allowed.'')),
        Controller_x)"
  using proxy_set_rejected [OF proxyWrapper_Controller, of "''message''" "Str ''other''" "''message''"]
  by simp



section \<open>The scenarios of the specification\<close>

text \<open>
  Scenario A: a handler returns an \<open>ApiRes\<close> with status 201 whose \<open>toJson()\<close> is
  \<open>{id: 1}\<close>. Scenario B: a handler returns the plain object \<open>{message: 'hi'}\<close>.
\<close>

lemma scenario_A:
  "asyncHandler (\<lambda>req res. ([], Returns (ApiResInst 201 (Obj [(''id'', Num 1)]))))
       never_throws req res
     = [Status 201, Json (Obj [(''id'', Num 1)])]"
  by (simp add: asyncHandler_def handleResult_def perform_never_throws forward_thrown_def)

lemma scenario_B:
  "asyncHandler (\<lambda>req res. ([], Returns (Obj [(''message'', Str ''hi'')]))) never_throws req res
     = [Send (Obj [(''message'', Str ''hi'')])]"
  by (simp add: asyncHandler_def handleResult_def perform_never_throws forward_thrown_def)

text \<open>
  Scenario C: a handler throws \<open>new NotFoundError('missing')\<close>; the wrapper forwards
  it and the error middleware writes its body at status 404.
\<close>

lemma getErrorName_404: "getErrorName 404 = ''NotFoundError''"
  by code_simp

lemma scenario_C:
  "asyncHandler (\<lambda>req res. ([], Throws (HttpErr (NotFoundError_new (Str ''missing'') Undefined))))
       ex req res
     = [Next (HttpErr (NotFoundError_new (Str ''missing'') Undefined))]"
  "isHttpError (HttpErr (NotFoundError_new (Str ''missing'') Undefined))"
  "globalErrorHandler options (HttpErr (NotFoundError_new (Str ''missing'') Undefined))
     = ([Status 404,
         Json (Obj [(''status'', Num 404), (''error'', Str ''NotFoundError''),
                    (''message'', Str ''missing'')])], None)"
  by (simp_all add: asyncHandler_def globalErrorHandler_classified toJson_def
        NotFoundError_new_def HttpError_new_def getErrorName_404 Let_def)

text \<open>
  Scenario D: a handler throws a plain error and the middleware runs with
  \<open>isDev: false\<close>.
\<close>

lemma scenario_D:
  "globalErrorHandler (Some \<lparr>isDev = Some False, write_fn = None\<rparr>) (Thrown boom)
     = ([Status 500,
         Json (Obj [(''status'', Num 500), (''error'', Str ''InternalServerError''),
                    (''message'', Str ''Something went wrong'')])], None)"
  by (simp add: globalErrorHandler_production)

text \<open>
  Scenario E: \<open>proxyWrapper(Controller, 'x').method\<close>, called, runs \<open>method\<close> on
  the instance constructed with \<open>'x'\<close>, through \<open>asyncHandler\<close>.
\<close>

lemma scenario_E:
  "proxyWrapper (Constructor Controller) [Str ''x''] = Inr px \<Longrightarrow>
     proxy_get px ''method'' = Handler h \<Longrightarrow> h never_throws req res = [Send (Str ''x'')]"
  by (auto simp: proxyWrapper_def Controller_def Controller_method_def proxy_get_def
        Reflect_get_def bind_def asyncHandler_def handleResult_def perform_never_throws
        forward_thrown_def)

end
